theory Spec2Isabelle
  imports Main
begin

section \<open>The value model (xml/message.go)\<close>

text \<open>
  The kind tag of an XML-RPC value, in the order of the \<^verbatim>\<open>iota\<close> constants.
\<close>

datatype valueKind =
    nilKind | booleanKind | intKind | doubleKind | dateTimeKind
  | base64Kind | stringKind | arrayKind | structKind

text \<open>
  Go's integer and floating-point types. \<^verbatim>\<open>byte\<close> is \<^verbatim>\<open>uint8\<close>.
\<close>

datatype intType =
    TInt | TInt8 | TInt16 | TInt32 | TInt64
  | TUint | TUint8 | TUint16 | TUint32 | TUint64

datatype floatType = TFloat32 | TFloat64

text \<open>
  A floating-point number is a signed dyadic rational \<open>(-1)^neg * m * 2^e\<close>, an
  infinity or NaN. Every finite \<^verbatim>\<open>float32\<close> and \<^verbatim>\<open>float64\<close> has this form.
\<close>

datatype float = Finite bool nat int | Infinity bool | NaN

text \<open>
  A \<^verbatim>\<open>time.Time\<close>, by the calendar fields it shows in its own location, the
  nanoseconds within the second and the offset of its zone east of UTC in seconds.
\<close>

record gotime =
  year :: int
  month :: nat
  day :: nat
  hour :: nat
  minute :: nat
  second :: nat
  nsec :: nat
  zoneOffset :: int

text \<open>
  Go types as \<^verbatim>\<open>reflect.Type\<close> sees them. A struct type carries its name (empty
  for an anonymous struct) and its fields in declaration order, each with its name,
  the value of its \<^verbatim>\<open>rpc\<close> tag when it has one, and its type. \<^verbatim>\<open>time.Time\<close> is a
  struct type of its own, \<open>TimeT\<close>. Maps are keyed by \<^verbatim>\<open>string\<close>. \<open>OtherT\<close> stands for the kinds this package never
  inspects (channels, functions, complex numbers), by the name of their kind.
  Defined non-struct types (\<^verbatim>\<open>type T int\<close>) are outside this universe.
\<close>

datatype gotype =
    BoolT
  | IntT intType
  | FloatT floatType
  | StringT
  | TimeT
  | SliceT gotype
  | ArrayT nat gotype
  | MapT gotype
  | StructT string "field list"
  | PtrT gotype
  | InterfaceT
  | OtherT string
and field = Field (fieldName: string) (fieldTag: "string option") (fieldType: gotype)

text \<open>
  Go values as an \<^verbatim>\<open>interface{}\<close> holds them: \<open>VNil\<close> is the nil interface, every
  other value knows its dynamic type. A slice is its element type and its elements
  (a nil slice and an empty slice are both the empty list); a map is its value type
  and its entries in the order \<^verbatim>\<open>MapKeys\<close> returns them; a struct is its type name
  and its fields with their values; a pointer is its pointee type and the value it
  points to, or \<open>None\<close> when it is nil.

  An \<^verbatim>\<open>rpcValue\<close> is the struct of the source: a payload and a kind tag.
\<close>

datatype goval =
    VNil
  | VBool bool
  | VInt intType int
  | VFloat floatType float
  | VString string
  | VTime gotime
  | VSlice gotype "goval list"
  | VArray gotype "goval list"
  | VMap gotype "(string \<times> goval) list"
  | VStruct string "(field \<times> goval) list"
  | VPtr gotype "goval option"
  | VValues "rpcValue list"
  | VEntries "rpcEntry list"
  | VOther string
and rpcValue = RpcValue (val: goval) (kind: valueKind)
and rpcEntry = RpcEntry (Name: string) (Value: rpcValue)

text \<open>The zero \<^verbatim>\<open>rpcValue\<close>: a nil payload and \<^verbatim>\<open>nilKind\<close> (the first constant).\<close>

definition zeroValue :: rpcValue where
  "zeroValue = RpcValue VNil nilKind"

record rpcParams =
  Params :: "rpcValue list"

record methodCall =
  Method :: string
  callParams :: "rpcValue list"

record methodResponse =
  respParams :: "rpcValue list"
  Fault :: rpcValue

section \<open>The fault taxonomy (fault codes and \<^verbatim>\<open>faultCode.New\<close>)\<close>

datatype faultCode =
    MalformedInput | UnsupportedEncoding | InvalidCharacter
  | InvalidRequest | MethodNotFound | InvalidParams | InternalError

fun codeInt :: "faultCode \<Rightarrow> int" where
  "codeInt MalformedInput = -32700"
| "codeInt UnsupportedEncoding = -32701"
| "codeInt InvalidCharacter = -32702"
| "codeInt InvalidRequest = -32600"
| "codeInt MethodNotFound = -32601"
| "codeInt InvalidParams = -32602"
| "codeInt InternalError = -32603"

fun faultMessages :: "faultCode \<Rightarrow> string" where
  "faultMessages MalformedInput = ''malformed input''"
| "faultMessages UnsupportedEncoding = ''unsupported encoding''"
| "faultMessages InvalidCharacter = ''invalid character for encoding''"
| "faultMessages InvalidRequest = ''invalid xml-rpc. not conforming to spec''"
| "faultMessages MethodNotFound = ''requested method not found''"
| "faultMessages InvalidParams = ''invalid method parameters''"
| "faultMessages InternalError = ''internal xml-rpc error''"

record fault =
  Code :: int
  Message :: string

text \<open>
  \<^verbatim>\<open>faultCode.New\<close>, applied to the message that \<^verbatim>\<open>fmt.Sprintf\<close> has already
  formatted: an empty message falls back to the table.
\<close>

definition New :: "faultCode \<Rightarrow> string \<Rightarrow> fault" where
  "New f s = \<lparr>Code = codeInt f, Message = (if length s = 0 then faultMessages f else s)\<rparr>"

text \<open>
  Go errors. \<open>FaultErr\<close> is a \<^verbatim>\<open>Fault\<close> used as an error, \<open>EOF\<close> is \<^verbatim>\<open>io.EOF\<close>,
  \<open>SyntaxError\<close> is an \<^verbatim>\<open>*xml.SyntaxError\<close>, \<open>ErrorString\<close> is an error made by
  \<^verbatim>\<open>fmt.Errorf\<close>, \<open>LibError\<close> is an error value of another standard package
  (\<^verbatim>\<open>*time.ParseError\<close>, \<^verbatim>\<open>base64.CorruptInputError\<close>, an I/O error of the sink).
  A failure is an error that is returned or a panic that unwinds.
\<close>

datatype goerror =
    FaultErr fault
  | EOF
  | SyntaxError string
  | ErrorString string
  | LibError string

datatype failure = Error goerror | Panic string

section \<open>Text produced by the standard library\<close>

text \<open>Decimal text of a natural number and of an integer (\<^verbatim>\<open>strconv.Itoa\<close>).\<close>

definition digitChar :: "nat \<Rightarrow> char" where
  "digitChar d = ''0123456789'' ! (d mod 10)"

fun showNat :: "nat \<Rightarrow> string" where
  "showNat n = (if n < 10 then [digitChar n] else showNat (n div 10) @ [digitChar (n mod 10)])"

declare showNat.simps [simp del]

definition showInt :: "int \<Rightarrow> string" where
  "showInt i = (if i < 0 then CHR ''-'' # showNat (nat (- i)) else showNat (nat i))"

text \<open>A natural number in decimal, padded with zeros on the left to a width.\<close>

definition padNat :: "nat \<Rightarrow> nat \<Rightarrow> string" where
  "padNat w n = replicate (w - length (showNat n)) (CHR ''0'') @ showNat n"

text \<open>
  \<^verbatim>\<open>fmt.Sprintf("%f", x)\<close> for a floating-point \<open>x\<close>: the exact value rounded to six
  decimal places, ties to even, as \<^verbatim>\<open>strconv\<close> formats with \<^verbatim>\<open>'f'\<close> and precision 6;
  the sign is kept for negative values that round to zero; infinities and NaN print
  by name. \<open>scaled6 m e\<close> is \<open>m * 2^e * 10^6\<close> rounded to a natural number.
\<close>

definition scaled6 :: "nat \<Rightarrow> int \<Rightarrow> nat" where
  "scaled6 m e =
     (if 0 \<le> e then m * 2 ^ nat e * 1000000
      else let d = 2 ^ nat (- e); q = (m * 1000000) div d; r = (m * 1000000) mod d
           in if 2 * r < d then q
              else if d < 2 * r then q + 1
              else if even q then q else q + 1)"

fun fmtF :: "float \<Rightarrow> string" where
  "fmtF (Finite neg m e) =
     (if neg then [CHR ''-''] else []) @ showNat (scaled6 m e div 1000000) @ [CHR ''.'']
       @ padNat 6 (scaled6 m e mod 1000000)"
| "fmtF (Infinity neg) = (if neg then ''-Inf'' else ''+Inf'')"
| "fmtF NaN = ''NaN''"

text \<open>\<^verbatim>\<open>strings.TrimRight(d, "0")\<close>.\<close>

definition trimRight0 :: "string \<Rightarrow> string" where
  "trimRight0 d = rev (dropWhile (\<lambda>c. c = CHR ''0'') (rev d))"

text \<open>
  What \<^verbatim>\<open>writeValue\<close> does to the text \<open>d\<close> of a double: the trailing zeros are
  trimmed, and a zero is appended when nothing or a final point is left.
\<close>

definition trimDouble :: "string \<Rightarrow> string" where
  "trimDouble d0 =
     (let d = trimRight0 d0
      in if length d = 0 \<or> last d = CHR ''.'' then d @ ''0'' else d)"

text \<open>
  \<^verbatim>\<open>fmt.Sprint\<close> and \<^verbatim>\<open>fmt.Sprintf("%f", _)\<close> on a payload: modelled on the payloads
  listed; \<open>None\<close> is a payload whose text is not modelled.
\<close>

fun fmtSprint :: "goval \<Rightarrow> string option" where
  "fmtSprint (VInt ty n) = Some (showInt n)"
| "fmtSprint (VString s) = Some s"
| "fmtSprint (VBool b) = Some (if b then ''true'' else ''false'')"
| "fmtSprint VNil = Some ''<nil>''"
| "fmtSprint _ = None"

fun fmtSprintfF :: "goval \<Rightarrow> string option" where
  "fmtSprintfF (VFloat ty x) = Some (fmtF x)"
| "fmtSprintfF _ = None"

text \<open>
  \<^verbatim>\<open>t.AppendFormat(b, "20060102T15:04:05")\<close>: the year in at least four digits,
  with a minus sign when negative, and the other fields in two digits.
\<close>

definition formatIso8601 :: "gotime \<Rightarrow> string" where
  "formatIso8601 t =
     (if year t < 0 then [CHR ''-''] else []) @ padNat 4 (nat \<bar>year t\<bar>)
       @ padNat 2 (month t) @ padNat 2 (day t) @ [CHR ''T'']
       @ padNat 2 (hour t) @ [CHR '':''] @ padNat 2 (minute t) @ [CHR '':'']
       @ padNat 2 (second t)"

text \<open>\<^verbatim>\<open>base64.StdEncoding.EncodeToString\<close>: the standard alphabet, padded with \<^verbatim>\<open>=\<close>.\<close>

definition b64Char :: "nat \<Rightarrow> char" where
  "b64Char n =
     (''ABCDEFGHIJKLMNOPQRSTUVWXYZabcdefghijklmnopqrstuvwxyz0123456789+/'') ! (n mod 64)"

fun base64Encode :: "nat list \<Rightarrow> string" where
  "base64Encode (a # b # c # rest) =
     [b64Char (a div 4), b64Char ((a mod 4) * 16 + b div 16),
      b64Char ((b mod 16) * 4 + c div 64), b64Char (c mod 64)] @ base64Encode rest"
| "base64Encode [a, b] =
     [b64Char (a div 4), b64Char ((a mod 4) * 16 + b div 16), b64Char ((b mod 16) * 4), CHR ''='']"
| "base64Encode [a] = [b64Char (a div 4), b64Char ((a mod 4) * 16), CHR ''='', CHR ''='']"
| "base64Encode [] = []"

text \<open>
  The type assertion \<^verbatim>\<open>rpc.value.([]byte)\<close>: the payload must be a slice of \<^verbatim>\<open>uint8\<close>;
  its elements are read as bytes.
\<close>

fun byteOf :: "goval \<Rightarrow> nat" where
  "byteOf (VInt ty n) = nat (n mod 256)"
| "byteOf _ = 0"

fun asBytes :: "goval \<Rightarrow> nat list option" where
  "asBytes (VSlice t xs) = (if t = IntT TUint8 then Some (map byteOf xs) else None)"
| "asBytes _ = None"

text \<open>
  \<^verbatim>\<open>utf8.DecodeRune\<close> on the bytes of a string: the code point of the first rune and
  its width in bytes; an invalid or short encoding is \<^verbatim>\<open>RuneError\<close> (U+FFFD) of width 1.
\<close>

definition cont :: "nat \<Rightarrow> bool" where
  "cont b = (128 \<le> b \<and> b \<le> 191)"

fun decodeRune :: "nat list \<Rightarrow> nat \<times> nat" where
  "decodeRune [] = (65533, 0)"
| "decodeRune (b0 # bs) =
     (if b0 < 128 then (b0, 1)
      else if 194 \<le> b0 \<and> b0 \<le> 223 then
        (case bs of b1 # _ \<Rightarrow> if cont b1 then ((b0 - 192) * 64 + (b1 - 128), 2) else (65533, 1)
         | _ \<Rightarrow> (65533, 1))
      else if 224 \<le> b0 \<and> b0 \<le> 239 then
        (case bs of b1 # b2 # _ \<Rightarrow>
           if (if b0 = 224 then 160 \<le> b1 \<and> b1 \<le> 191
               else if b0 = 237 then 128 \<le> b1 \<and> b1 \<le> 159 else cont b1) \<and> cont b2
           then ((b0 - 224) * 4096 + (b1 - 128) * 64 + (b2 - 128), 3) else (65533, 1)
         | _ \<Rightarrow> (65533, 1))
      else if 240 \<le> b0 \<and> b0 \<le> 244 then
        (case bs of b1 # b2 # b3 # _ \<Rightarrow>
           if (if b0 = 240 then 144 \<le> b1 \<and> b1 \<le> 191
               else if b0 = 244 then 128 \<le> b1 \<and> b1 \<le> 143 else cont b1) \<and> cont b2 \<and> cont b3
           then ((b0 - 240) * 262144 + (b1 - 128) * 4096 + (b2 - 128) * 64 + (b3 - 128), 4)
           else (65533, 1)
         | _ \<Rightarrow> (65533, 1))
      else (65533, 1))"

text \<open>\<^verbatim>\<open>isInCharacterRange\<close> of \<^verbatim>\<open>encoding/xml\<close>: the code points XML allows.\<close>

definition isInCharacterRange :: "nat \<Rightarrow> bool" where
  "isInCharacterRange r =
     (r = 9 \<or> r = 10 \<or> r = 13 \<or> (32 \<le> r \<and> r \<le> 55295) \<or> (57344 \<le> r \<and> r \<le> 65533)
      \<or> (65536 \<le> r \<and> r \<le> 1114111))"

text \<open>
  \<^verbatim>\<open>xml.EscapeText\<close>: the text with the five markup characters, tab, newline and
  carriage return replaced by character references, and every rune that XML does not
  allow (or that does not decode) replaced by U+FFFD. The function walks the string
  rune by rune; \<open>n\<close> bounds the number of runes left.
\<close>

fun escapeRunes :: "nat \<Rightarrow> string \<Rightarrow> string" where
  "escapeRunes 0 s = []"
| "escapeRunes (Suc n) s =
     (if s = [] then []
      else let (r, width) = decodeRune (map of_char s); rest = drop width s
           in (if r = 34 then ''&#34;''
               else if r = 39 then ''&#39;''
               else if r = 38 then ''&amp;''
               else if r = 60 then ''&lt;''
               else if r = 62 then ''&gt;''
               else if r = 9 then ''&#x9;''
               else if r = 10 then ''&#xA;''
               else if r = 13 then ''&#xD;''
               else if isInCharacterRange r \<and> (r, width) \<noteq> (65533, 1) then take width s
               else [CHR 0xEF, CHR 0xBF, CHR 0xBD])
              @ escapeRunes n rest)"

definition EscapeText :: "string \<Rightarrow> string" where
  "EscapeText s = escapeRunes (length s) s"

text \<open>\<^verbatim>\<open>strings.IndexAny(s, `<>&'"`) == -1\<close>.\<close>

definition noMarkup :: "string \<Rightarrow> bool" where
  "noMarkup s = list_all (\<lambda>c. c \<notin> set ''<>&'' \<and> c \<noteq> CHR 0x27 \<and> c \<noteq> CHR 0x22) s"

section \<open>The writer (\<^verbatim>\<open>xmlWriter\<close>)\<close>

datatype xmlTag =
    valueTag | structTag | arrayTag | dataTag | base64Tag | booleanTag | dateTimeTag
  | doubleTag | intTag | stringTag | memberTag | nameTag | methodCallTag | methodNameTag
  | methodResponseTag | paramListTag | paramTag | faultTag

fun tagNames :: "xmlTag \<Rightarrow> string" where
  "tagNames valueTag = ''value''"
| "tagNames structTag = ''struct''"
| "tagNames arrayTag = ''array''"
| "tagNames dataTag = ''data''"
| "tagNames base64Tag = ''base64''"
| "tagNames booleanTag = ''boolean''"
| "tagNames dateTimeTag = ''dateTime.iso8601''"
| "tagNames doubleTag = ''double''"
| "tagNames intTag = ''int''"
| "tagNames stringTag = ''string''"
| "tagNames memberTag = ''member''"
| "tagNames nameTag = ''name''"
| "tagNames methodCallTag = ''methodCall''"
| "tagNames methodNameTag = ''methodName''"
| "tagNames methodResponseTag = ''methodResponse''"
| "tagNames paramListTag = ''params''"
| "tagNames paramTag = ''param''"
| "tagNames faultTag = ''fault''"

definition startTags :: "xmlTag \<Rightarrow> string" where
  "startTags t = ''<'' @ tagNames t @ ''>''"

definition endTags :: "xmlTag \<Rightarrow> string" where
  "endTags t = ''</'' @ tagNames t @ ''>''"

text \<open>\<^verbatim>\<open>xml.Header\<close> of \<^verbatim>\<open>encoding/xml\<close>, with its final newline.\<close>

definition xmlHeader :: string where
  "xmlHeader = ''<?xml version=\"1.0\" encoding=\"UTF-8\"?>'' @ [CHR 0x0A]"

text \<open>
  The \<^verbatim>\<open>io.Writer\<close> behind the writer: the bytes it has taken so far and the number
  of writes it still accepts (\<open>None\<close>: it never fails, as a \<^verbatim>\<open>bytes.Buffer\<close>). A write
  that is refused returns an error and leaves the bytes as they are.
\<close>

record sink =
  written :: string
  accepts :: "nat option"

definition newSink :: sink where
  "newSink = \<lparr>written = [], accepts = None\<rparr>"

definition WriteString :: "sink \<Rightarrow> string \<Rightarrow> failure option \<times> sink" where
  "WriteString w s =
     (case accepts w of
        None \<Rightarrow> (None, w\<lparr>written := written w @ s\<rparr>)
      | Some 0 \<Rightarrow> (Some (Error (LibError ''write failed'')), w)
      | Some (Suc n) \<Rightarrow> (None, w\<lparr>written := written w @ s, accepts := Some n\<rparr>))"

text \<open>
  Sequencing of writer steps: \<^verbatim>\<open>if err := step; err != nil { return err }\<close>.
\<close>

definition andThen ::
  "failure option \<times> sink \<Rightarrow> (sink \<Rightarrow> failure option \<times> sink) \<Rightarrow> failure option \<times> sink" where
  "andThen r f = (case r of (None, w) \<Rightarrow> f w | (Some e, w) \<Rightarrow> (Some e, w))"

definition writeRaw :: "sink \<Rightarrow> xmlTag \<Rightarrow> string \<Rightarrow> failure option \<times> sink" where
  "writeRaw w t raw =
     andThen (WriteString w (startTags t)) (\<lambda>w.
     andThen (WriteString w raw) (\<lambda>w.
     WriteString w (endTags t)))"

definition writeXML ::
  "sink \<Rightarrow> xmlTag \<Rightarrow> (sink \<Rightarrow> failure option \<times> sink) \<Rightarrow> failure option \<times> sink" where
  "writeXML w t fn =
     andThen (WriteString w (startTags t)) (\<lambda>w.
     andThen (fn w) (\<lambda>w.
     WriteString w (endTags t)))"

text \<open>
  \<^verbatim>\<open>xml.EscapeText(w.wr, []byte(s))\<close> writes the escaped text to the sink in pieces;
  the model writes it in one piece.
\<close>

definition writeEscaped :: "sink \<Rightarrow> string \<Rightarrow> failure option \<times> sink" where
  "writeEscaped w s = WriteString w (EscapeText s)"

text \<open>
  \<^verbatim>\<open>writeValue\<close>. The loops over the elements of an array and over the members of a
  struct are \<open>writeValues\<close> and \<open>writeMembers\<close>. A type assertion on the payload that
  fails is a panic, as in Go. \<open>unmodelled\<close> marks the text of \<^verbatim>\<open>fmt\<close> on a payload
  outside \<open>fmtSprint\<close> and \<open>fmtSprintfF\<close>.
\<close>

definition unmodelled :: failure where
  "unmodelled = Panic ''not modelled: fmt on this payload''"

definition assertion :: "string \<Rightarrow> failure" where
  "assertion t = Panic (''interface conversion: interface {} is not '' @ t)"

fun writeValue :: "sink \<Rightarrow> rpcValue \<Rightarrow> failure option \<times> sink"
  and writeValues :: "sink \<Rightarrow> rpcValue list \<Rightarrow> failure option \<times> sink"
  and writeMembers :: "sink \<Rightarrow> rpcEntry list \<Rightarrow> failure option \<times> sink" where
  "writeValue w (RpcValue v k) =
     andThen (WriteString w (startTags valueTag)) (\<lambda>w.
     andThen
       (case k of
          intKind \<Rightarrow>
            (case fmtSprint v of Some d \<Rightarrow> writeRaw w intTag d | None \<Rightarrow> (Some unmodelled, w))
        | booleanKind \<Rightarrow>
            (case v of VBool b \<Rightarrow> writeRaw w booleanTag (if b then ''1'' else ''0'')
             | _ \<Rightarrow> (Some (assertion ''bool''), w))
        | doubleKind \<Rightarrow>
            (case fmtSprintfF v of
               Some d \<Rightarrow> writeRaw w doubleTag (trimDouble d)
             | None \<Rightarrow> (Some unmodelled, w))
        | stringKind \<Rightarrow>
            (case v of
               VString s \<Rightarrow>
                 if noMarkup s then writeRaw w stringTag s
                 else writeXML w stringTag (\<lambda>w. writeEscaped w s)
             | _ \<Rightarrow> (Some (assertion ''string''), w))
        | dateTimeKind \<Rightarrow>
            (case v of VTime t \<Rightarrow> writeRaw w dateTimeTag (formatIso8601 t)
             | _ \<Rightarrow> (Some (assertion ''time.Time''), w))
        | base64Kind \<Rightarrow>
            (case asBytes v of Some bs \<Rightarrow> writeRaw w base64Tag (base64Encode bs)
             | None \<Rightarrow> (Some (assertion ''[]uint8''), w))
        | arrayKind \<Rightarrow>
            andThen (WriteString w (startTags arrayTag)) (\<lambda>w.
            andThen (WriteString w (startTags dataTag)) (\<lambda>w.
            andThen
              (case v of VValues array \<Rightarrow> writeValues w array
               | _ \<Rightarrow> (Some (assertion ''[]xml.rpcValue''), w)) (\<lambda>w.
            andThen (WriteString w (endTags dataTag)) (\<lambda>w.
            WriteString w (endTags arrayTag)))))
        | structKind \<Rightarrow>
            andThen (WriteString w (startTags structTag)) (\<lambda>w.
            andThen
              (case v of VEntries members \<Rightarrow> writeMembers w members
               | _ \<Rightarrow> (Some (assertion ''[]xml.rpcEntry''), w)) (\<lambda>w.
            WriteString w (endTags structTag)))
        | nilKind \<Rightarrow> (None, w)) (\<lambda>w.
     WriteString w (endTags valueTag)))"
| "writeValues w [] = (None, w)"
| "writeValues w (v # vs) =
     (case writeValue w v of
        (Some e, w') \<Rightarrow> (Some e, w')
      | (None, w') \<Rightarrow> writeValues w' vs)"
| "writeMembers w [] = (None, w)"
| "writeMembers w (RpcEntry name v # ms) =
     (case (andThen (WriteString w (startTags memberTag)) (\<lambda>w.
            andThen (writeRaw w nameTag name) (\<lambda>w.
            andThen (writeValue w v) (\<lambda>w.
            WriteString w (endTags memberTag))))) of
        (Some e, w') \<Rightarrow> (Some e, w')
      | (None, w') \<Rightarrow> writeMembers w' ms)"

text \<open>
  \<^verbatim>\<open>rpcValue.isEmpty\<close>: the type assertions on the payload of an array and of a struct
  are unchecked, so they panic on another payload.
\<close>

fun isEmpty :: "rpcValue \<Rightarrow> failure + bool" where
  "isEmpty (RpcValue v k) =
     (case k of
        nilKind \<Rightarrow> Inr True
      | arrayKind \<Rightarrow>
          (case v of VValues vs \<Rightarrow> Inr (length vs = 0)
           | _ \<Rightarrow> Inl (assertion ''[]xml.rpcValue''))
      | structKind \<Rightarrow>
          (case v of VEntries ms \<Rightarrow> Inr (length ms = 0)
           | _ \<Rightarrow> Inl (assertion ''[]xml.rpcEntry''))
      | _ \<Rightarrow> Inr False)"

text \<open>The loop over the parameters, each in a \<^verbatim>\<open>param\<close> element.\<close>

fun writeParamList :: "sink \<Rightarrow> rpcValue list \<Rightarrow> failure option \<times> sink" where
  "writeParamList w [] = (None, w)"
| "writeParamList w (v # vs) =
     (case writeXML w paramTag (\<lambda>w. writeValue w v) of
        (Some e, w') \<Rightarrow> (Some e, w')
      | (None, w') \<Rightarrow> writeParamList w' vs)"

definition writeCall :: "sink \<Rightarrow> methodCall \<Rightarrow> failure option \<times> sink" where
  "writeCall w rpc =
     andThen (WriteString w xmlHeader) (\<lambda>w.
     writeXML w methodCallTag (\<lambda>w.
       andThen (writeRaw w methodNameTag (Method rpc)) (\<lambda>w.
       writeXML w paramListTag (\<lambda>w. writeParamList w (callParams rpc)))))"

definition writeResponse :: "sink \<Rightarrow> methodResponse \<Rightarrow> failure option \<times> sink" where
  "writeResponse w rpc =
     andThen (WriteString w xmlHeader) (\<lambda>w.
     writeXML w methodResponseTag (\<lambda>w.
       case isEmpty (Fault rpc) of
         Inl p \<Rightarrow> (Some p, w)
       | Inr False \<Rightarrow> writeXML w faultTag (\<lambda>w. writeValue w (Fault rpc))
       | Inr True \<Rightarrow> writeXML w paramListTag (\<lambda>w. writeParamList w (respParams rpc))))"

section \<open>The reflective mapper: \<^verbatim>\<open>makeValue\<close>\<close>

text \<open>
  A struct field is exported when its name starts with an upper-case letter (the
  ASCII letters here). \<^verbatim>\<open>reflect.Value.Interface\<close> panics on a field that is not.
\<close>

definition exported :: "string \<Rightarrow> bool" where
  "exported n = (case n of [] \<Rightarrow> False | c # _ \<Rightarrow> 65 \<le> (of_char c :: nat) \<and> (of_char c :: nat) \<le> 90)"

definition wireName :: "field \<Rightarrow> string" where
  "wireName f = (case fieldTag f of Some tagName \<Rightarrow> tagName | None \<Rightarrow> fieldName f)"

text \<open>
  \<^verbatim>\<open>makeValue\<close>. A nil interface is the zero value. A pointer is dereferenced once by
  \<^verbatim>\<open>reflect.Indirect\<close>, and \<^verbatim>\<open>refVal.Interface()\<close> is then called on the result: for a
  nil pointer that result is the zero \<^verbatim>\<open>reflect.Value\<close>, on which \<^verbatim>\<open>Interface\<close> panics.

  \<open>classify iface value\<close> is the rest of the function on the dereferenced value:
  the type switch on the dynamic type of \<open>value\<close>, and in its default branch the switch
  on \<^verbatim>\<open>refVal.Kind()\<close>. \<open>iface\<close> says that \<^verbatim>\<open>refVal\<close> is an interface-typed variable
  reached through a pointer: its kind is then \<^verbatim>\<open>Interface\<close>, whatever it holds.
  \<open>makeItems\<close>, \<open>makeMapEntries\<close> and \<open>makeFieldEntries\<close> are the three loops.
  The type switch lists nine integer types; \<^verbatim>\<open>int8\<close> is not among them.
\<close>

fun makeValue :: "goval \<Rightarrow> failure + rpcValue"
  and classify :: "bool \<Rightarrow> goval \<Rightarrow> failure + rpcValue"
  and makeItems :: "goval list \<Rightarrow> failure + rpcValue list"
  and makeMapEntries :: "(string \<times> goval) list \<Rightarrow> failure + rpcEntry list"
  and makeFieldEntries :: "(field \<times> goval) list \<Rightarrow> failure + rpcEntry list" where
  "makeValue VNil = Inr zeroValue"
| "makeValue (VPtr t None) =
     Inl (Panic ''reflect: call of reflect.Value.Interface on zero Value'')"
| "makeValue (VPtr t (Some x)) = classify (t = InterfaceT) x"
| "makeValue (VBool b) = classify False (VBool b)"
| "makeValue (VInt ty n) = classify False (VInt ty n)"
| "makeValue (VFloat ty x) = classify False (VFloat ty x)"
| "makeValue (VString s) = classify False (VString s)"
| "makeValue (VTime t) = classify False (VTime t)"
| "makeValue (VSlice t xs) = classify False (VSlice t xs)"
| "makeValue (VArray t xs) = classify False (VArray t xs)"
| "makeValue (VMap t kvs) = classify False (VMap t kvs)"
| "makeValue (VStruct n fvs) = classify False (VStruct n fvs)"
| "makeValue (VValues vs) = classify False (VValues vs)"
| "makeValue (VEntries es) = classify False (VEntries es)"
| "makeValue (VOther k) = classify False (VOther k)"
| "classify iface (VBool b) = Inr (RpcValue (VBool b) booleanKind)"
| "classify iface (VInt ty n) =
     Inr (RpcValue (VInt ty n) (if ty = TInt8 then nilKind else intKind))"
| "classify iface (VFloat ty x) = Inr (RpcValue (VFloat ty x) doubleKind)"
| "classify iface (VString s) = Inr (RpcValue (VString s) stringKind)"
| "classify iface (VTime t) = Inr (RpcValue (VTime t) dateTimeKind)"
| "classify iface (VSlice t xs) =
     (if t = IntT TUint8 then Inr (RpcValue (VSlice t xs) base64Kind)
      else if iface then Inr (RpcValue (VSlice t xs) nilKind)
      else case makeItems xs of
             Inl p \<Rightarrow> Inl p
           | Inr array \<Rightarrow> Inr (RpcValue (VValues array) arrayKind))"
| "classify iface (VArray t xs) =
     (if iface then Inr (RpcValue (VArray t xs) nilKind)
      else case makeItems xs of
             Inl p \<Rightarrow> Inl p
           | Inr array \<Rightarrow> Inr (RpcValue (VValues array) arrayKind))"
| "classify iface (VMap t kvs) =
     (if iface then Inr (RpcValue (VMap t kvs) nilKind)
      else case makeMapEntries kvs of
             Inl p \<Rightarrow> Inl p
           | Inr members \<Rightarrow> Inr (RpcValue (VEntries members) structKind))"
| "classify iface (VStruct n fvs) =
     (if iface then Inr (RpcValue (VStruct n fvs) nilKind)
      else case makeFieldEntries fvs of
             Inl p \<Rightarrow> Inl p
           | Inr members \<Rightarrow> Inr (RpcValue (VEntries members) structKind))"
| "classify iface (VValues vs) =
     (if iface then Inr (RpcValue (VValues vs) nilKind)
      else if vs = [] then Inr (RpcValue (VValues []) arrayKind)
      else Inl (Panic
        ''reflect.Value.Interface: cannot return value obtained from unexported field or method''))"
| "classify iface (VEntries es) =
     (if iface then Inr (RpcValue (VEntries es) nilKind)
      else if es = [] then Inr (RpcValue (VValues []) arrayKind)
      else Inl (Panic
        ''reflect.Value.Interface: cannot return value obtained from unexported field or method''))"
| "classify iface VNil = Inr (RpcValue VNil nilKind)"
| "classify iface (VPtr t x) = Inr (RpcValue (VPtr t x) nilKind)"
| "classify iface (VOther k) = Inr (RpcValue (VOther k) nilKind)"
| "makeItems [] = Inr []"
| "makeItems (x # xs) =
     (case makeValue x of
        Inl p \<Rightarrow> Inl p
      | Inr item \<Rightarrow> (case makeItems xs of Inl p \<Rightarrow> Inl p | Inr array \<Rightarrow> Inr (item # array)))"
| "makeMapEntries [] = Inr []"
| "makeMapEntries ((key, x) # kvs) =
     (case makeValue x of
        Inl p \<Rightarrow> Inl p
      | Inr v \<Rightarrow>
          (case makeMapEntries kvs of
             Inl p \<Rightarrow> Inl p
           | Inr members \<Rightarrow> Inr (RpcEntry key v # members)))"
| "makeFieldEntries [] = Inr []"
| "makeFieldEntries ((f, x) # fvs) =
     (if \<not> exported (fieldName f) then
        Inl (Panic
          ''reflect.Value.Interface: cannot return value obtained from unexported field or method'')
      else case makeValue x of
        Inl p \<Rightarrow> Inl p
      | Inr v \<Rightarrow>
          (case makeFieldEntries fvs of
             Inl p \<Rightarrow> Inl p
           | Inr members \<Rightarrow> Inr (RpcEntry (wireName f) v # members)))"

text \<open>\<^verbatim>\<open>makeParams\<close>, \<^verbatim>\<open>makeCall\<close> and \<^verbatim>\<open>makeResponse\<close>.\<close>

definition makeParams :: "goval list \<Rightarrow> failure + rpcValue list" where
  "makeParams args = makeItems args"

definition makeCall :: "string \<Rightarrow> goval list \<Rightarrow> failure + methodCall" where
  "makeCall method params =
     (case makeParams params of
        Inl p \<Rightarrow> Inl p
      | Inr ps \<Rightarrow> Inr \<lparr>Method = method, callParams = ps\<rparr>)"

section \<open>Reflection: kinds, types of values, zero values\<close>

datatype goKind =
    KInvalid | KBool | KInt intType | KFloat floatType | KString | KSlice | KArray | KMap
  | KStruct | KPtr | KInterface | KOther string

fun kindOfType :: "gotype \<Rightarrow> goKind" where
  "kindOfType BoolT = KBool"
| "kindOfType (IntT ty) = KInt ty"
| "kindOfType (FloatT ty) = KFloat ty"
| "kindOfType StringT = KString"
| "kindOfType TimeT = KStruct"
| "kindOfType (SliceT t) = KSlice"
| "kindOfType (ArrayT n t) = KArray"
| "kindOfType (MapT t) = KMap"
| "kindOfType (StructT n fs) = KStruct"
| "kindOfType (PtrT t) = KPtr"
| "kindOfType InterfaceT = KInterface"
| "kindOfType (OtherT k) = KOther k"

fun intTypeName :: "intType \<Rightarrow> string" where
  "intTypeName TInt = ''int''"
| "intTypeName TInt8 = ''int8''"
| "intTypeName TInt16 = ''int16''"
| "intTypeName TInt32 = ''int32''"
| "intTypeName TInt64 = ''int64''"
| "intTypeName TUint = ''uint''"
| "intTypeName TUint8 = ''uint8''"
| "intTypeName TUint16 = ''uint16''"
| "intTypeName TUint32 = ''uint32''"
| "intTypeName TUint64 = ''uint64''"

fun floatTypeName :: "floatType \<Rightarrow> string" where
  "floatTypeName TFloat32 = ''float32''"
| "floatTypeName TFloat64 = ''float64''"

text \<open>\<^verbatim>\<open>reflect.Kind.String\<close>, which \<^verbatim>\<open>%s\<close> prints.\<close>

fun kindName :: "goKind \<Rightarrow> string" where
  "kindName KInvalid = ''invalid''"
| "kindName KBool = ''bool''"
| "kindName (KInt ty) = intTypeName ty"
| "kindName (KFloat ty) = floatTypeName ty"
| "kindName KString = ''string''"
| "kindName KSlice = ''slice''"
| "kindName KArray = ''array''"
| "kindName KMap = ''map''"
| "kindName KStruct = ''struct''"
| "kindName KPtr = ''ptr''"
| "kindName KInterface = ''interface''"
| "kindName (KOther k) = k"

text \<open>
  \<^verbatim>\<open>reflect.Type.String\<close>. An anonymous struct type prints its fields; their tags are
  left out here.
\<close>

fun typeString :: "gotype \<Rightarrow> string"
  and fieldsString :: "field list \<Rightarrow> string" where
  "typeString BoolT = ''bool''"
| "typeString (IntT ty) = intTypeName ty"
| "typeString (FloatT ty) = floatTypeName ty"
| "typeString StringT = ''string''"
| "typeString TimeT = ''time.Time''"
| "typeString (SliceT t) = ''[]'' @ typeString t"
| "typeString (ArrayT n t) = ''['' @ showNat n @ '']'' @ typeString t"
| "typeString (MapT t) = ''map[string]'' @ typeString t"
| "typeString (StructT n fs) =
     (if n \<noteq> [] then n else if fs = [] then ''struct {}'' else ''struct { '' @ fieldsString fs @ '' }'')"
| "typeString (PtrT t) = ''*'' @ typeString t"
| "typeString InterfaceT = ''interface {}''"
| "typeString (OtherT k) = k"
| "fieldsString [] = []"
| "fieldsString (Field n tg t # fs) =
     n @ '' '' @ typeString t @ (if fs = [] then [] else ''; '' @ fieldsString fs)"

text \<open>The struct types of \<^verbatim>\<open>rpcValue\<close>, \<^verbatim>\<open>rpcEntry\<close> and \<^verbatim>\<open>Fault\<close>.\<close>

definition rpcValueT :: gotype where
  "rpcValueT = StructT ''xml.rpcValue''
     [Field ''value'' None InterfaceT, Field ''kind'' None (IntT TUint8)]"

definition rpcEntryT :: gotype where
  "rpcEntryT = StructT ''xml.rpcEntry''
     [Field ''Name'' None StringT, Field ''Value'' None rpcValueT]"

definition faultFields :: "field list" where
  "faultFields =
     [Field ''Code'' (Some ''faultCode'') (IntT TInt),
      Field ''Message'' (Some ''faultString'') StringT]"

definition faultT :: gotype where
  "faultT = StructT ''xml.Fault'' faultFields"

definition faultVal :: "fault \<Rightarrow> goval" where
  "faultVal f = VStruct ''xml.Fault''
     [(Field ''Code'' (Some ''faultCode'') (IntT TInt), VInt TInt (Code f)),
      (Field ''Message'' (Some ''faultString'') StringT, VString (Message f))]"

text \<open>\<^verbatim>\<open>reflect.TypeOf\<close>: the dynamic type of a value, \<open>None\<close> for the nil interface.\<close>

fun typeOf :: "goval \<Rightarrow> gotype option" where
  "typeOf VNil = None"
| "typeOf (VBool b) = Some BoolT"
| "typeOf (VInt ty n) = Some (IntT ty)"
| "typeOf (VFloat ty x) = Some (FloatT ty)"
| "typeOf (VString s) = Some StringT"
| "typeOf (VTime t) = Some TimeT"
| "typeOf (VSlice t xs) = Some (SliceT t)"
| "typeOf (VArray t xs) = Some (ArrayT (length xs) t)"
| "typeOf (VMap t kvs) = Some (MapT t)"
| "typeOf (VStruct n fvs) = Some (StructT n (map fst fvs))"
| "typeOf (VPtr t x) = Some (PtrT t)"
| "typeOf (VValues vs) = Some (SliceT rpcValueT)"
| "typeOf (VEntries es) = Some (SliceT rpcEntryT)"
| "typeOf (VOther k) = Some (OtherT k)"

text \<open>The zero \<^verbatim>\<open>time.Time\<close>: January 1, year 1, 00:00:00 UTC.\<close>

definition zeroTime :: gotime where
  "zeroTime = \<lparr>year = 1, month = 1, day = 1, hour = 0, minute = 0, second = 0, nsec = 0,
     zoneOffset = 0\<rparr>"

text \<open>The zero value of a type, as \<^verbatim>\<open>reflect.MakeSlice\<close> fills a new slice with.\<close>

fun zeroOf :: "gotype \<Rightarrow> goval"
  and zeroFields :: "field list \<Rightarrow> (field \<times> goval) list" where
  "zeroOf BoolT = VBool False"
| "zeroOf (IntT ty) = VInt ty 0"
| "zeroOf (FloatT ty) = VFloat ty (Finite False 0 0)"
| "zeroOf StringT = VString []"
| "zeroOf TimeT = VTime zeroTime"
| "zeroOf (SliceT t) = VSlice t []"
| "zeroOf (ArrayT n t) = VArray t (replicate n (zeroOf t))"
| "zeroOf (MapT t) = VMap t []"
| "zeroOf (StructT n fs) = VStruct n (zeroFields fs)"
| "zeroOf (PtrT t) = VPtr t None"
| "zeroOf InterfaceT = VNil"
| "zeroOf (OtherT k) = VOther k"
| "zeroFields [] = []"
| "zeroFields (Field n tg t # fs) = (Field n tg t, zeroOf t) # zeroFields fs"

text \<open>
  The fields of a struct type (\<^verbatim>\<open>NumField\<close>, \<^verbatim>\<open>Field(i)\<close>); those of \<^verbatim>\<open>time.Time\<close> are
  unexported.
\<close>

fun fieldsOf :: "gotype \<Rightarrow> field list" where
  "fieldsOf (StructT n fs) = fs"
| "fieldsOf TimeT =
     [Field ''wall'' None (IntT TUint64), Field ''ext'' None (IntT TInt64),
      Field ''loc'' None (PtrT (StructT ''time.Location'' []))]"
| "fieldsOf _ = []"

section \<open>The reflective mapper: \<^verbatim>\<open>writeTo\<close>\<close>

text \<open>
  A destination. \<^verbatim>\<open>rpcValue.writeTo\<close> takes an \<^verbatim>\<open>interface{}\<close>: either a Go value
  (\<open>Arg\<close>: a pointer \<open>VPtr t (Some c)\<close> to a variable of static type \<open>t\<close> that holds
  \<open>c\<close>, a nil pointer, a value that is no pointer, or the nil interface), or a pointer
  to a \<^verbatim>\<open>reflect.Value\<close> (\<open>ValuePtr\<close>), as the function passes to itself for the
  elements of a slice and the fields of a struct. A valid \<^verbatim>\<open>reflect.Value\<close> is a slot:
  its static type, what it holds, and whether \<^verbatim>\<open>CanSet\<close> is true; \<open>None\<close> is the zero
  \<^verbatim>\<open>reflect.Value\<close>. The result is the failure, if any, and the destination afterwards.
\<close>

record slot =
  slotType :: gotype
  content :: goval
  settable :: bool

datatype target = Arg goval | ValuePtr "slot option"

definition quoted :: "string \<Rightarrow> string" where
  "quoted s = [CHR 0x27] @ s @ [CHR 0x27]"

definition internalError :: "string \<Rightarrow> failure" where
  "internalError msg = Error (FaultErr (New InternalError msg))"

text \<open>
  The end of \<^verbatim>\<open>writeTo\<close>: a nil \<^verbatim>\<open>val\<close> writes nothing; otherwise the type of \<^verbatim>\<open>val\<close>
  must be the type of the slot unless the slot is an \<^verbatim>\<open>interface{}\<close>; then
  \<^verbatim>\<open>refVal.Set\<close>.
\<close>

definition setVal :: "goval \<Rightarrow> slot \<Rightarrow> failure option \<times> slot" where
  "setVal v s =
     (case typeOf v of
        None \<Rightarrow> (None, s)
      | Some t \<Rightarrow>
          if t \<noteq> slotType s \<and> slotType s \<noteq> InterfaceT then
            (Some (internalError (''type mismatch: '' @ typeString t @ '' != ''
               @ typeString (slotType s))), s)
          else (None, s\<lparr>content := v\<rparr>))"

text \<open>
  \<^verbatim>\<open>nameMap\<close>: from the wire name of each field (its \<^verbatim>\<open>rpc\<close> tag, else its name) to
  its name, a later field replacing an earlier one of the same wire name.
\<close>

definition nameMap :: "field list \<Rightarrow> (string \<rightharpoonup> string)" where
  "nameMap fs = fold (\<lambda>f m. m(wireName f \<mapsto> fieldName f)) fs Map.empty"

text \<open>\<^verbatim>\<open>refVal.FieldByName\<close> on the fields of the struct type.\<close>

definition FieldByName :: "field list \<Rightarrow> string \<Rightarrow> field option" where
  "FieldByName fs n = find (\<lambda>f. fieldName f = n) fs"

fun lookupField :: "(field \<times> goval) list \<Rightarrow> string \<Rightarrow> goval option" where
  "lookupField [] n = None"
| "lookupField ((g, y) # fvs) n = (if fieldName g = n then Some y else lookupField fvs n)"

definition getField :: "goval \<Rightarrow> field \<Rightarrow> goval" where
  "getField c f =
     (case c of
        VStruct n fvs \<Rightarrow>
          (case lookupField fvs (fieldName f) of Some y \<Rightarrow> y | None \<Rightarrow> zeroOf (fieldType f))
      | _ \<Rightarrow> zeroOf (fieldType f))"

definition setField :: "goval \<Rightarrow> field \<Rightarrow> goval \<Rightarrow> goval" where
  "setField c f x =
     (case c of
        VStruct n fvs \<Rightarrow>
          VStruct n (map (\<lambda>(g, y). if fieldName g = fieldName f then (g, x) else (g, y)) fvs)
      | _ \<Rightarrow> c)"

definition sliceElems :: "goval \<Rightarrow> goval list" where
  "sliceElems c = (case c of VSlice t xs \<Rightarrow> xs | _ \<Rightarrow> [])"

text \<open>
  \<open>projectSlot r s\<close> is \<^verbatim>\<open>r.writeTo(&rv)\<close> for a valid \<^verbatim>\<open>reflect.Value rv\<close>, the slot
  \<open>s\<close>: nothing is written for an empty value; the slot must be settable; an array
  builds a new slice of the slot's element type, projects each item into its element
  and appends the new slice to what the slot holds; a struct projects each member into
  the field that \<^verbatim>\<open>nameMap\<close> gives, in place, so that a failure leaves the fields
  written so far. \<open>projectItems\<close> and \<open>projectMembers\<close> are the two loops.
\<close>

fun projectSlot :: "rpcValue \<Rightarrow> slot \<Rightarrow> failure option \<times> slot"
  and projectItems :: "rpcValue list \<Rightarrow> gotype \<Rightarrow> failure + goval list"
  and projectMembers :: "rpcEntry list \<Rightarrow> field list \<Rightarrow> goval \<Rightarrow> failure option \<times> goval" where
  "projectSlot (RpcValue v k) s =
     (case isEmpty (RpcValue v k) of
        Inl p \<Rightarrow> (Some p, s)
      | Inr True \<Rightarrow> (None, s)
      | Inr False \<Rightarrow>
          if \<not> settable s then
            (Some (internalError ''error writing to value. cannot set value''), s)
          else
            (case k of
               arrayKind \<Rightarrow>
                 if slotType s = InterfaceT then setVal v s
                 else if kindOfType (slotType s) \<noteq> KSlice then
                   (Some (internalError (''error writing value. expected type slice got ''
                      @ quoted (kindName (kindOfType (slotType s))))), s)
                 else
                   (case v of
                      VValues array \<Rightarrow>
                        (case slotType s of
                           SliceT et \<Rightarrow>
                             (case projectItems array et of
                                Inl e \<Rightarrow> (Some e, s)
                              | Inr slice \<Rightarrow> setVal (VSlice et (sliceElems (content s) @ slice)) s)
                         | _ \<Rightarrow> (None, s))
                    | _ \<Rightarrow> (Some (internalError ''invalid decoded type for array''), s))
             | structKind \<Rightarrow>
                 if kindOfType (slotType s) \<noteq> KStruct then
                   (Some (internalError (''error writing struct. expected type struct got ''
                      @ quoted (kindName (kindOfType (slotType s))))), s)
                 else
                   (case v of
                      VEntries members \<Rightarrow>
                        (case projectMembers members (fieldsOf (slotType s)) (content s) of
                           (Some e, c) \<Rightarrow> (Some e, s\<lparr>content := c\<rparr>)
                         | (None, c) \<Rightarrow> setVal c (s\<lparr>content := c\<rparr>))
                    | _ \<Rightarrow> (Some (internalError ''invalid decoded type for struct''), s))
             | _ \<Rightarrow> setVal v s))"
| "projectItems [] et = Inr []"
| "projectItems (item # array) et =
     (case projectSlot item \<lparr>slotType = et, content = zeroOf et, settable = True\<rparr> of
        (Some e, m) \<Rightarrow> Inl e
      | (None, m) \<Rightarrow>
          (case projectItems array et of
             Inl e \<Rightarrow> Inl e
           | Inr slice \<Rightarrow> Inr (content m # slice)))"
| "projectMembers [] fs c = (None, c)"
| "projectMembers (RpcEntry name v # members) fs c =
     (let fieldName = (case nameMap fs name of Some n \<Rightarrow> n | None \<Rightarrow> [])
      in case FieldByName fs fieldName of
           None \<Rightarrow> (Some (internalError (''error writing struct. unknown field '' @ fieldName)), c)
         | Some f \<Rightarrow>
             (case projectSlot v
                     \<lparr>slotType = fieldType f, content = getField c f,
                      settable = exported (Spec2Isabelle.fieldName f)\<rparr> of
                (Some e, m) \<Rightarrow> (Some e, setField c f (content m))
              | (None, m) \<Rightarrow> projectMembers members fs (setField c f (content m))))"

text \<open>
  \<^verbatim>\<open>rpcValue.writeTo\<close>. The receiver is never a nil pointer here. An empty value
  returns at once. \<^verbatim>\<open>reflect.TypeOf(v).Kind()\<close> panics on the nil interface; an
  argument that is no pointer, and a pointer to an interface-typed variable, are
  refused; a nil pointer has nothing to set. A pointer to a \<^verbatim>\<open>reflect.Value\<close> is
  unwrapped, and \<^verbatim>\<open>Type\<close> panics on the zero \<^verbatim>\<open>reflect.Value\<close>.
\<close>

definition kindOfVal :: "goval \<Rightarrow> goKind" where
  "kindOfVal v = (case typeOf v of None \<Rightarrow> KInvalid | Some t \<Rightarrow> kindOfType t)"

fun writeTo :: "rpcValue \<Rightarrow> target \<Rightarrow> failure option \<times> target" where
  "writeTo r tgt =
     (case isEmpty r of
        Inl p \<Rightarrow> (Some p, tgt)
      | Inr True \<Rightarrow> (None, tgt)
      | Inr False \<Rightarrow>
          (case tgt of
             Arg VNil \<Rightarrow>
               (Some (Panic ''runtime error: invalid memory address or nil pointer dereference''), tgt)
           | Arg (VPtr t c) \<Rightarrow>
               if kindOfType t = KInterface then
                 (Some (internalError (''error writing value. cannot write to type '' @ quoted ''ptr'')), tgt)
               else
                 (case c of
                    None \<Rightarrow> (Some (internalError ''error writing to value. cannot set value''), tgt)
                  | Some x \<Rightarrow>
                      (case projectSlot r \<lparr>slotType = t, content = x, settable = True\<rparr> of
                         (e, s) \<Rightarrow> (e, Arg (VPtr t (Some (content s))))))
           | Arg v \<Rightarrow>
               (Some (internalError (''error writing value. expected pointer got ''
                  @ quoted (kindName (kindOfVal v)))), tgt)
           | ValuePtr None \<Rightarrow>
               (Some (Panic ''reflect: call of reflect.Value.Type on zero Value''), tgt)
           | ValuePtr (Some s) \<Rightarrow>
               (case projectSlot r s of (e, s') \<Rightarrow> (e, ValuePtr (Some s')))))"

declare writeTo.simps [simp del]

text \<open>
  \<^verbatim>\<open>rpcParams.writeTo\<close>: one parameter is projected into the receiver itself, several
  are projected as one array into the variable the receiver points to.
\<close>

definition paramsWriteTo :: "rpcValue list \<Rightarrow> goval \<Rightarrow> failure option \<times> goval" where
  "paramsWriteTo ps args =
     (if args = VNil \<or> length ps = 0 then (None, args)
      else case args of
        VPtr t c \<Rightarrow>
          if length ps = 1 then
            (case writeTo (hd ps) (Arg args) of
               (e, Arg a) \<Rightarrow> (e, a)
             | (e, _) \<Rightarrow> (e, args))
          else
            (case writeTo (RpcValue (VValues ps) arrayKind)
                    (ValuePtr (map_option (\<lambda>x. \<lparr>slotType = t, content = x, settable = True\<rparr>) c)) of
               (e, ValuePtr (Some s)) \<Rightarrow> (e, VPtr t (Some (content s)))
             | (e, _) \<Rightarrow> (e, args))
      | _ \<Rightarrow>
          (Some (internalError (''invalid receiver type. expected pointer but got ''
             @ quoted (kindName (kindOfVal args)))), args))"

text \<open>\<^verbatim>\<open>checkPointer\<close> of the codec.\<close>

definition checkPointer :: "goval \<Rightarrow> failure option" where
  "checkPointer v =
     (case v of
        VNil \<Rightarrow> Some (Panic ''runtime error: invalid memory address or nil pointer dereference'')
      | VPtr t c \<Rightarrow> None
      | _ \<Rightarrow>
          Some (internalError (''error decoding to value. expected pointer got ''
            @ quoted (kindName (kindOfVal v)))))"

text \<open>
  The payload of a value fits its kind when it has the type that the type assertions
  of \<^verbatim>\<open>writeValue\<close> and \<^verbatim>\<open>isEmpty\<close> expect, in the value and in every value below it.
  A value of \<^verbatim>\<open>nilKind\<close> may carry any payload. \<^verbatim>\<open>makeValue\<close> and the reader only
  build values of this form.
\<close>

fun wellFormed :: "rpcValue \<Rightarrow> bool"
  and wellFormedList :: "rpcValue list \<Rightarrow> bool"
  and wellFormedEntries :: "rpcEntry list \<Rightarrow> bool" where
  "wellFormed (RpcValue v k) =
     (case k of
        nilKind \<Rightarrow> True
      | booleanKind \<Rightarrow> (case v of VBool b \<Rightarrow> True | _ \<Rightarrow> False)
      | intKind \<Rightarrow> (case v of VInt ty n \<Rightarrow> True | _ \<Rightarrow> False)
      | doubleKind \<Rightarrow> (case v of VFloat ty x \<Rightarrow> True | _ \<Rightarrow> False)
      | dateTimeKind \<Rightarrow> (case v of VTime t \<Rightarrow> True | _ \<Rightarrow> False)
      | base64Kind \<Rightarrow> (case v of VSlice t xs \<Rightarrow> t = IntT TUint8 | _ \<Rightarrow> False)
      | stringKind \<Rightarrow> (case v of VString s \<Rightarrow> True | _ \<Rightarrow> False)
      | arrayKind \<Rightarrow> (case v of VValues vs \<Rightarrow> wellFormedList vs | _ \<Rightarrow> False)
      | structKind \<Rightarrow> (case v of VEntries es \<Rightarrow> wellFormedEntries es | _ \<Rightarrow> False))"
| "wellFormedList [] = True"
| "wellFormedList (v # vs) = (wellFormed v \<and> wellFormedList vs)"
| "wellFormedEntries [] = True"
| "wellFormedEntries (RpcEntry n v # es) = (wellFormed v \<and> wellFormedEntries es)"

text \<open>A text of decimal digits only.\<close>

definition isDigit :: "char \<Rightarrow> bool" where
  "isDigit c = (c \<in> set ''0123456789'')"

definition digits :: "string \<Rightarrow> bool" where
  "digits s = list_all isDigit s"

text \<open>A failure of the \<^verbatim>\<open>InternalError\<close> class: a returned \<^verbatim>\<open>Fault\<close> whose code is -32603.\<close>

definition isInternalError :: "failure \<Rightarrow> bool" where
  "isInternalError e = (case e of Error (FaultErr f) \<Rightarrow> Code f = - 32603 | _ \<Rightarrow> False)"

section \<open>Properties of the writer\<close>

lemma WriteString_open [simp]:
  "WriteString \<lparr>written = out, accepts = None\<rparr> s = (None, \<lparr>written = out @ s, accepts = None\<rparr>)"
  by (simp add: WriteString_def)

lemma andThen_None [simp]: "andThen (None, w) f = f w"
  by (simp add: andThen_def)

lemma andThen_Some [simp]: "andThen (Some e, w) f = (Some e, w)"
  by (simp add: andThen_def)

lemma writeRaw_open [simp]:
  "writeRaw \<lparr>written = out, accepts = None\<rparr> t raw
     = (None, \<lparr>written = out @ startTags t @ raw @ endTags t, accepts = None\<rparr>)"
  by (simp add: writeRaw_def)

text \<open>The text of a finite double.\<close>
lemma digitChar_digit: "isDigit (digitChar d)"
proof -
  have "d mod 10 \<in> {0,1,2,3,4,5,6,7,8,9}" by (simp; presburger)
  then show ?thesis unfolding digitChar_def isDigit_def by (elim insertE emptyE) simp_all
qed

lemma showNat_digits: "digits (showNat n) \<and> showNat n \<noteq> []"
proof (induction n rule: showNat.induct)
  case (1 n)
  show ?case
  proof (cases "n < 10")
    case True
    then show ?thesis using digitChar_digit [of n]
      by (simp add: showNat.simps [of n] digits_def)
  next
    case False
    with 1 have "digits (showNat (n div 10))" by simp
    then show ?thesis using False digitChar_digit [of "n mod 10"]
      by (simp add: showNat.simps [of n] digits_def)
  qed
qed

lemma length_showNat: "0 < k \<Longrightarrow> n < 10 ^ k \<Longrightarrow> length (showNat n) \<le> k"
proof (induction n arbitrary: k rule: showNat.induct)
  case (1 n)
  show ?case
  proof (cases "n < 10")
    case True
    then show ?thesis using 1(2) by (simp add: showNat.simps [of n])
  next
    case False
    with 1(3) have "k \<noteq> 1" by auto
    with 1(2) obtain j where k: "k = Suc j" and j: "0 < j" by (cases k) auto
    have "n div 10 < 10 ^ j" using 1(3) k by (simp add: less_mult_imp_div_less mult.commute)
    then have "length (showNat (n div 10)) \<le> j" using 1(1) [OF False j] by simp
    then show ?thesis using False k by (simp add: showNat.simps [of n])
  qed
qed

lemma isDigit_zero: "isDigit (CHR ''0'')"
  by (simp add: isDigit_def)

lemma not_isDigit_point: "\<not> isDigit (CHR ''.'')"
  by (simp add: isDigit_def)

lemma padNat_props:
  assumes "n < 10 ^ w" and "0 < w"
  shows "length (padNat w n) = w \<and> digits (padNat w n)"
proof -
  have l: "length (showNat n) \<le> w" by (rule length_showNat [OF assms(2) assms(1)])
  have d: "digits (showNat n)" using showNat_digits [of n] by simp
  have "length (padNat w n) = w" using l by (simp add: padNat_def)
  moreover have "digits (padNat w n)" using d isDigit_zero
    by (auto simp: padNat_def digits_def list_all_iff)
  ultimately show ?thesis by simp
qed

lemma trimRight0_append:
  "c \<noteq> CHR ''0'' \<Longrightarrow> trimRight0 (xs @ c # f) = xs @ c # trimRight0 f"
  by (simp add: trimRight0_def dropWhile_append)

lemma trimRight0_split: "f = trimRight0 f @ replicate (length f - length (trimRight0 f)) (CHR ''0'')"
proof -
  let ?P = "\<lambda>c. c = CHR ''0''"
  let ?t = "takeWhile ?P (rev f)"
  have tw: "replicate (length ?t) (CHR ''0'') = ?t"
    by (rule replicate_length_same) (auto dest: set_takeWhileD)
  have "f = rev (?t @ dropWhile ?P (rev f))" by simp
  also have "\<dots> = rev (dropWhile ?P (rev f)) @ rev ?t" by (rule rev_append)
  finally have f: "f = trimRight0 f @ rev ?t"
    unfolding trimRight0_def .
  have len: "length ?t = length f - length (trimRight0 f)"
    using arg_cong [OF f, of length] by simp
  have "rev ?t = rev (replicate (length ?t) (CHR ''0''))" by (simp only: tw)
  then have r: "rev ?t = replicate (length f - length (trimRight0 f)) (CHR ''0'')"
    by (simp only: rev_replicate len)
  note f
  also note r
  finally show ?thesis .
qed

lemma last_trimRight0: "trimRight0 f \<noteq> [] \<Longrightarrow> last (trimRight0 f) \<noteq> CHR ''0''"
  using hd_dropWhile [of "\<lambda>c. c = CHR ''0''" "rev f"]
  by (simp add: trimRight0_def last_rev)

lemma digits_trimRight0: "digits f \<Longrightarrow> digits (trimRight0 f)"
  by (auto simp: digits_def trimRight0_def list_all_iff dest: set_dropWhileD)

lemma length_trimRight0: "length (trimRight0 f) \<le> length f"
  by (simp add: trimRight0_def length_dropWhile_le [of _ "rev f", simplified])

lemma digits_last:
  assumes "digits f" and "f \<noteq> []"
  shows "last f \<noteq> CHR ''.''"
proof
  assume "last f = CHR ''.''"
  moreover have "last f \<in> set f" using assms(2) by (rule last_in_set)
  ultimately have "CHR ''.'' \<in> set f" by simp
  then have "isDigit (CHR ''.'')" using assms(1) by (simp add: digits_def list_all_iff)
  then show False by (simp add: not_isDigit_point)
qed


lemma trimDouble_finite:
  "\<exists>ip fp. trimDouble (fmtF (Finite neg m e)) = (if neg then ''-'' else []) @ ip @ ''.'' @ fp
     \<and> ip \<noteq> [] \<and> digits ip \<and> fp \<noteq> [] \<and> length fp \<le> 6 \<and> digits fp
     \<and> (fp = ''0'' \<or> last fp \<noteq> CHR ''0'')
     \<and> fmtF (Finite neg m e)
         = (if neg then ''-'' else []) @ ip @ ''.'' @ fp @ replicate (6 - length fp) (CHR ''0'')"
proof -
  define sg where "sg = (if neg then ''-'' else [])"
  define ip where "ip = showNat (scaled6 m e div 1000000)"
  define f6 where "f6 = padNat 6 (scaled6 m e mod 1000000)"
  define fp where "fp = trimRight0 f6"
  have F: "fmtF (Finite neg m e) = (sg @ ip) @ CHR ''.'' # f6"
    by (simp add: sg_def ip_def f6_def)
  have ip: "ip \<noteq> []" "digits ip" using showNat_digits [of "scaled6 m e div 1000000"]
    by (simp_all add: ip_def)
  have f6: "length f6 = 6" "digits f6"
    using padNat_props [of "scaled6 m e mod 1000000" 6] by (simp_all add: f6_def)
  have t: "trimRight0 (fmtF (Finite neg m e)) = (sg @ ip) @ CHR ''.'' # fp"
    unfolding F fp_def by (rule trimRight0_append) simp
  have split: "f6 = fp @ replicate (6 - length fp) (CHR ''0'')"
    using trimRight0_split [of f6] f6(1) by (simp add: fp_def)
  have fpd: "digits fp" "length fp \<le> 6"
    using digits_trimRight0 [OF f6(2)] length_trimRight0 [of f6] f6(1) by (simp_all add: fp_def)
  show ?thesis
  proof (cases "fp = []")
    case True
    have d: "trimDouble (fmtF (Finite neg m e)) = sg @ ip @ ''.'' @ ''0''"
      unfolding trimDouble_def Let_def t using True by simp
    have "f6 = replicate 6 (CHR ''0'')" using split True by simp
    then have f: "fmtF (Finite neg m e) = sg @ ip @ ''.'' @ ''0'' @ replicate (6 - length ''0'') (CHR ''0'')"
      unfolding F by (simp add: eval_nat_numeral)
    have z: "digits ''0''" by (simp add: digits_def isDigit_zero)
    show ?thesis
      apply (rule exI [of _ ip])
      apply (rule exI [of _ "''0''"])
      using d f ip z unfolding sg_def
      apply (simp del: fmtF.simps)
      done
  next
    case False
    have l0: "last fp \<noteq> CHR ''0''" using False last_trimRight0 [of f6] by (simp add: fp_def)
    have "last fp \<noteq> CHR ''.''" using digits_last [OF fpd(1) False] .
    then have d: "trimDouble (fmtF (Finite neg m e)) = sg @ ip @ ''.'' @ fp"
      unfolding trimDouble_def Let_def t using False by simp
    have f: "fmtF (Finite neg m e) = sg @ ip @ ''.'' @ fp @ replicate (6 - length fp) (CHR ''0'')"
      unfolding F using split by simp
    show ?thesis
      apply (rule exI [of _ ip])
      apply (rule exI [of _ fp])
      using d f ip fpd False l0 unfolding sg_def
      apply (simp del: fmtF.simps)
      done
  qed
qed

text \<open>
  C9 (as amended). For every finite double, \<^verbatim>\<open>writeValue\<close> writes, between the
  \<^verbatim>\<open>double\<close> tags, a sign, a non-empty integer part \<open>ip\<close>, a decimal point and
  between one and six decimal digits \<open>fp\<close>, which are the six digits of the
  fixed-point form \<^verbatim>\<open>%f\<close> with the trailing zeros removed but one digit kept: \<open>fp\<close>
  ends in a zero only when it is the single digit \<^verbatim>\<open>0\<close>, and padding it with zeros
  gives the text of \<^verbatim>\<open>%f\<close> back. NaN and the infinities are written by name.
\<close>

theorem double_text:
  "(\<exists>ip fp.
      writeValue \<lparr>written = out, accepts = None\<rparr> (RpcValue (VFloat ty (Finite neg m e)) doubleKind)
        = (None, \<lparr>written = out @ ''<value><double>'' @ (if neg then ''-'' else []) @ ip @ ''.''
                     @ fp @ ''</double></value>'', accepts = None\<rparr>)
      \<and> ip \<noteq> [] \<and> digits ip \<and> fp \<noteq> [] \<and> length fp \<le> 6 \<and> digits fp
      \<and> (fp = ''0'' \<or> last fp \<noteq> CHR ''0'')
      \<and> fmtF (Finite neg m e)
          = (if neg then ''-'' else []) @ ip @ ''.'' @ fp @ replicate (6 - length fp) (CHR ''0''))
   \<and> writeValue \<lparr>written = out, accepts = None\<rparr> (RpcValue (VFloat ty NaN) doubleKind)
        = (None, \<lparr>written = out @ ''<value><double>NaN</double></value>'', accepts = None\<rparr>)
   \<and> writeValue \<lparr>written = out, accepts = None\<rparr> (RpcValue (VFloat ty (Infinity neg)) doubleKind)
        = (None, \<lparr>written = out @ ''<value><double>'' @ (if neg then ''-Inf'' else ''+Inf'')
                     @ ''</double></value>'', accepts = None\<rparr>)"
proof -
  obtain ip fp where
    t: "trimDouble (fmtF (Finite neg m e)) = (if neg then ''-'' else []) @ ip @ ''.'' @ fp"
    and p: "ip \<noteq> []" "digits ip" "fp \<noteq> []" "length fp \<le> 6" "digits fp"
      "fp = ''0'' \<or> last fp \<noteq> CHR ''0''"
    and f: "fmtF (Finite neg m e)
      = (if neg then ''-'' else []) @ ip @ ''.'' @ fp @ replicate (6 - length fp) (CHR ''0'')"
    using trimDouble_finite [of neg m e] by blast
  have "writeValue \<lparr>written = out, accepts = None\<rparr> (RpcValue (VFloat ty (Finite neg m e)) doubleKind)
        = (None, \<lparr>written = out @ ''<value><double>'' @ (if neg then ''-'' else []) @ ip @ ''.''
                     @ fp @ ''</double></value>'', accepts = None\<rparr>)"
    using t by (simp add: startTags_def endTags_def del: fmtF.simps)
  with p f have first: "\<exists>ip fp.
      writeValue \<lparr>written = out, accepts = None\<rparr> (RpcValue (VFloat ty (Finite neg m e)) doubleKind)
        = (None, \<lparr>written = out @ ''<value><double>'' @ (if neg then ''-'' else []) @ ip @ ''.''
                     @ fp @ ''</double></value>'', accepts = None\<rparr>)
      \<and> ip \<noteq> [] \<and> digits ip \<and> fp \<noteq> [] \<and> length fp \<le> 6 \<and> digits fp
      \<and> (fp = ''0'' \<or> last fp \<noteq> CHR ''0'')
      \<and> fmtF (Finite neg m e)
          = (if neg then ''-'' else []) @ ip @ ''.'' @ fp @ replicate (6 - length fp) (CHR ''0'')"
    by blast
  have nan: "writeValue \<lparr>written = out, accepts = None\<rparr> (RpcValue (VFloat ty NaN) doubleKind)
        = (None, \<lparr>written = out @ ''<value><double>NaN</double></value>'', accepts = None\<rparr>)"
    by (simp add: startTags_def endTags_def trimDouble_def trimRight0_def)
  have inf: "writeValue \<lparr>written = out, accepts = None\<rparr> (RpcValue (VFloat ty (Infinity neg)) doubleKind)
        = (None, \<lparr>written = out @ ''<value><double>'' @ (if neg then ''-Inf'' else ''+Inf'')
                     @ ''</double></value>'', accepts = None\<rparr>)"
    by (simp add: startTags_def endTags_def trimDouble_def trimRight0_def)
  from first nan inf show ?thesis by blast
qed

theorem double_text_witness:
  "\<exists>ip fp.
      writeValue \<lparr>written = [], accepts = None\<rparr>
          (RpcValue (VFloat TFloat64 (Finite False 3 (- 1))) doubleKind)
        = (None, \<lparr>written = [] @ ''<value><double>'' @ (if False then ''-'' else []) @ ip @ ''.''
                     @ fp @ ''</double></value>'', accepts = None\<rparr>)
      \<and> ip \<noteq> [] \<and> digits ip \<and> fp \<noteq> [] \<and> length fp \<le> 6 \<and> digits fp
      \<and> (fp = ''0'' \<or> last fp \<noteq> CHR ''0'')
      \<and> fmtF (Finite False 3 (- 1))
          = (if False then ''-'' else []) @ ip @ ''.'' @ fp @ replicate (6 - length fp) (CHR ''0'')"
  by (rule conjunct1 [OF double_text [where out = "[]" and ty = TFloat64 and neg = False
        and m = 3 and e = "- 1"]])

text \<open>
  C9 as stated fails on NaN: the text written is \<^verbatim>\<open>NaN\<close>, which has no decimal point.
\<close>

theorem double_text_nan_counterexample:
  "writeValue newSink (RpcValue (VFloat TFloat64 NaN) doubleKind)
     = (None, \<lparr>written = ''<value><double>NaN</double></value>'', accepts = None\<rparr>)
   \<and> CHR ''.'' \<notin> set ''NaN''"
  by (simp add: newSink_def startTags_def endTags_def trimDouble_def trimRight0_def)


text \<open>
  C10. On a sink that accepts its writes, \<^verbatim>\<open>writeValue\<close> of a value of \<^verbatim>\<open>nilKind\<close>,
  whatever its payload, succeeds and appends exactly \<^verbatim>\<open><value></value>\<close>; and
  \<^verbatim>\<open>makeValue\<close> gives \<^verbatim>\<open>nilKind\<close>, with the native value as payload, to the shapes its
  switches do not list (a channel or function, an \<^verbatim>\<open>int8\<close>).
\<close>

theorem nil_kind_writes_empty_value:
  "writeValue \<lparr>written = out, accepts = None\<rparr> (RpcValue v nilKind)
     = (None, \<lparr>written = out @ ''<value></value>'', accepts = None\<rparr>)
   \<and> makeValue (VOther k) = Inr (RpcValue (VOther k) nilKind)
   \<and> makeValue (VInt TInt8 n) = Inr (RpcValue (VInt TInt8 n) nilKind)"
  by (simp add: startTags_def endTags_def)

theorem nil_kind_writes_empty_value_witness:
  "writeValue newSink (RpcValue (VOther ''chan'') nilKind)
     = (None, \<lparr>written = ''<value></value>'', accepts = None\<rparr>)"
  using nil_kind_writes_empty_value [of "[]" "VOther ''chan''" "''chan''" 0]
  by (simp add: newSink_def)

section \<open>Properties of \<^verbatim>\<open>makeValue\<close>\<close>

text \<open>
  C4. \<^verbatim>\<open>makeValue\<close> on a nil pointer, of any pointee type, panics: \<^verbatim>\<open>reflect.Indirect\<close>
  of a nil pointer is the zero \<^verbatim>\<open>reflect.Value\<close>, and \<^verbatim>\<open>Interface\<close> is called on it.
  A pointer that is not nil is dereferenced once: a pointer to an \<^verbatim>\<open>int\<close> is classified
  as the \<^verbatim>\<open>int\<close>, and a pointer to a pointer is not followed further, so that it gets
  \<^verbatim>\<open>nilKind\<close> with the inner pointer as payload.
\<close>

theorem makeValue_nil_pointer_panics:
  "makeValue (VPtr t None)
     = Inl (Panic ''reflect: call of reflect.Value.Interface on zero Value'')
   \<and> makeValue (VPtr (IntT TInt) (Some (VInt TInt n))) = Inr (RpcValue (VInt TInt n) intKind)
   \<and> makeValue (VPtr (PtrT t) (Some (VPtr t p))) = Inr (RpcValue (VPtr t p) nilKind)"
  by simp

end
